theory Spec2Isabelle
  imports Main "HOL-Library.Word"
begin

section \<open>JavaScript values and strings\<close>

text \<open>
  The macro engine of \<^verbatim>\<open>public/scripts/macros.js\<close> is embedded function by function.
  A JavaScript string is the list of its code units; the model covers code units below
  256, which is what \<^typ>\<open>char\<close> holds. A number is an integer or \<open>NaN\<close> (the engine
  only counts, indexes and adds one), printed in decimal as JavaScript prints an integer
  below \<open>10 ^ 21\<close>. A function value carries its source text, which is
  what \<^verbatim>\<open>String(f)\<close> returns, and its behaviour on its first argument, a string
  (\<open>None\<close> when it is called without one). The escaping function of a call is kept
  apart as a \<open>jsfun\<close>, since the engine hands it values of every kind. An object
  carries its JSON text and its string coercion, a date its ISO-8601 text and its string
  coercion.
\<close>

datatype jsval =
    Undefined
  | Null
  | Bool bool
  | Num int
  | NaN
  | Str string
  | Fun string "string option \<Rightarrow> jsval"
  | Promise
  | DateV string string
  | Obj string string

type_synonym jsfun = "string \<times> (jsval \<Rightarrow> jsval)"

fun arg_val :: "string option \<Rightarrow> jsval" where
  "arg_val None = Undefined"
| "arg_val (Some s) = Str s"

definition fun_val :: "jsfun \<Rightarrow> jsval" where
  "fun_val f = Fun (fst f) (\<lambda>a. snd f (arg_val a))"

definition call :: "jsfun \<Rightarrow> jsval \<Rightarrow> jsval" where
  "call f x = snd f x"

text \<open>The default escaping function of every replacer, \<^verbatim>\<open>(x => x)\<close>.\<close>

definition identity_escape :: jsfun where
  "identity_escape = (''x => x'', \<lambda>x. x)"

text \<open>The decimal digits of a number that is not negative, and of any integer.\<close>

function dec :: "int \<Rightarrow> string" where
  "dec n = (if n < 10 then [char_of (48 + n)] else dec (n div 10) @ [char_of (48 + n mod 10)])"
  by pat_completeness auto
termination
  by (relation "measure nat") auto

declare dec.simps [simp del]

definition dec_int :: "int \<Rightarrow> string" where
  "dec_int i = (if i < 0 then CHR ''-'' # dec (- i) else dec i)"

text \<open>\<^verbatim>\<open>String(v)\<close> and the coercion of a template literal.\<close>

fun to_string :: "jsval \<Rightarrow> string" where
  "to_string Undefined = ''undefined''"
| "to_string Null = ''null''"
| "to_string (Bool b) = (if b then ''true'' else ''false'')"
| "to_string (Num i) = dec_int i"
| "to_string NaN = ''NaN''"
| "to_string (Str s) = s"
| "to_string (Fun src f) = src"
| "to_string Promise = ''[object Promise]''"
| "to_string (DateV isoText s) = s"
| "to_string (Obj json s) = s"

text \<open>\<^verbatim>\<open>!v\<close> is \<open>\<not> truthy v\<close>.\<close>

fun truthy :: "jsval \<Rightarrow> bool" where
  "truthy Undefined = False"
| "truthy Null = False"
| "truthy (Bool b) = b"
| "truthy (Num i) = (i \<noteq> 0)"
| "truthy NaN = False"
| "truthy (Str s) = (s \<noteq> [])"
| "truthy (Fun src f) = True"
| "truthy Promise = True"
| "truthy (DateV isoText s) = True"
| "truthy (Obj json s) = True"

text \<open>\<^verbatim>\<open>a ?? b\<close>\<close>

fun nullish :: "jsval \<Rightarrow> bool" where
  "nullish Undefined = True"
| "nullish Null = True"
| "nullish v = False"

definition coalesce :: "jsval \<Rightarrow> jsval \<Rightarrow> jsval" where
  "coalesce a b = (if nullish a then b else a)"

text \<open>
  White space and line terminators below code unit 256: what \<^verbatim>\<open>trim()\<close> strips and
  what \<^verbatim>\<open>\s\<close> matches.
\<close>

definition is_space :: "char \<Rightarrow> bool" where
  "is_space c = (c \<in> set [CHR 0x09, CHR 0x0A, CHR 0x0B, CHR 0x0C, CHR 0x0D, CHR 0x20, CHR 0xA0])"

definition is_line_terminator :: "char \<Rightarrow> bool" where
  "is_line_terminator c = (c = CHR 0x0A \<or> c = CHR 0x0D)"

definition is_digit :: "char \<Rightarrow> bool" where
  "is_digit c = (48 \<le> (of_char c :: int) \<and> (of_char c :: int) \<le> 57)"

definition trim :: "string \<Rightarrow> string" where
  "trim s = rev (dropWhile is_space (rev (dropWhile is_space s)))"

fun startsWith :: "'a list \<Rightarrow> 'a list \<Rightarrow> bool" where
  "startsWith s [] = True"
| "startsWith [] (p # ps) = False"
| "startsWith (c # cs) (p # ps) = (c = p \<and> startsWith cs ps)"

definition endsWith :: "string \<Rightarrow> string \<Rightarrow> bool" where
  "endsWith s p = startsWith (rev s) (rev p)"

fun str_includes :: "string \<Rightarrow> string \<Rightarrow> bool" where
  "str_includes [] p = (p = [])"
| "str_includes (c # cs) p = (startsWith (c # cs) p \<or> str_includes cs p)"

section \<open>The macro registry\<close>

text \<open>
  \<^verbatim>\<open>MacrosParser.#macros\<close> is a \<^verbatim>\<open>Map\<close>: insertion ordered, one entry per key.
  \<open>map_set\<close> is \<^verbatim>\<open>Map.prototype.set\<close> (an existing key keeps its place),
  \<open>map_delete\<close> is \<^verbatim>\<open>Map.prototype.delete\<close>. The registry is passed and returned
  explicitly. A \<^verbatim>\<open>throw new Error(msg)\<close> is the value \<open>Inl (Error msg)\<close>; warnings
  on the console are not part of the model.
\<close>

datatype error = Error string

type_synonym registry = "(string \<times> jsval) list"

fun map_has :: "registry \<Rightarrow> string \<Rightarrow> bool" where
  "map_has [] k = False"
| "map_has ((k', v) # m) k = (k' = k \<or> map_has m k)"

fun map_set :: "registry \<Rightarrow> string \<Rightarrow> jsval \<Rightarrow> registry" where
  "map_set [] k v = [(k, v)]"
| "map_set ((k', v') # m) k v = (if k' = k then (k, v) # m else (k', v') # map_set m k v)"

fun map_delete :: "registry \<Rightarrow> string \<Rightarrow> registry" where
  "map_delete [] k = []"
| "map_delete ((k', v') # m) k = (if k' = k then m else (k', v') # map_delete m k)"

fun sanitizeMacroValue :: "jsval \<Rightarrow> string" where
  "sanitizeMacroValue (Str s) = s"
| "sanitizeMacroValue Null = []"
| "sanitizeMacroValue Undefined = []"
| "sanitizeMacroValue Promise = []"
| "sanitizeMacroValue (Fun src f) = []"
| "sanitizeMacroValue (DateV isoText s) = isoText"
| "sanitizeMacroValue (Obj json s) = json"
| "sanitizeMacroValue v = to_string v"

fun is_string :: "jsval \<Rightarrow> bool" where
  "is_string (Str s) = True"
| "is_string v = False"

fun is_string_or_function :: "jsval \<Rightarrow> bool" where
  "is_string_or_function (Str s) = True"
| "is_string_or_function (Fun src f) = True"
| "is_string_or_function v = False"

fun registerMacro :: "registry \<Rightarrow> jsval \<Rightarrow> jsval \<Rightarrow> error + registry" where
  "registerMacro macros (Str key0) value0 =
     (let key = trim key0 in
      if key = [] then Inl (Error ''Macro key must not be empty or whitespace only'')
      else if startsWith key ''{{'' \<or> endsWith key ''}}''
        then Inl (Error ''Macro key must not include the surrounding braces'')
      else
        let value = (if is_string_or_function value0 then value0
                     else Str (sanitizeMacroValue value0))
        in Inr (map_set macros key value))"
| "registerMacro macros key0 value0 = Inl (Error ''Macro key must be a string'')"

fun unregisterMacro :: "registry \<Rightarrow> jsval \<Rightarrow> error + registry" where
  "unregisterMacro macros (Str key0) =
     (let key = trim key0 in
      if key = [] then Inl (Error ''Macro key must not be empty or whitespace only'')
      else Inr (map_delete macros key))"
| "unregisterMacro macros key0 = Inl (Error ''Macro key must be a string'')"


section \<open>Regular expressions and \<^verbatim>\<open>String.prototype.replace\<close>\<close>

text \<open>
  A pattern is a function that, given the text from the current position on, returns the
  length of the match that the regular expression finds there and its capture groups.
  Each pattern of the source is written out below, its greedy and lazy quantifiers
  resolved as the backtracking matcher resolves them. No pattern of the source matches
  the empty string. \<open>replace_from\<close> is the global replace: it scans from left to right,
  emits the replacement at each match and goes on behind it. The replacer receives the
  matched text, the captures, the offset of the match and the whole string, as a
  JavaScript replacer function does.
\<close>

type_synonym matcher = "string \<Rightarrow> (nat \<times> string list) option"
type_synonym replacer = "string \<Rightarrow> string list \<Rightarrow> nat \<Rightarrow> string \<Rightarrow> string"

fun replace_from :: "matcher \<Rightarrow> replacer \<Rightarrow> string \<Rightarrow> nat \<Rightarrow> string \<Rightarrow> string" where
  "replace_from m f whole off [] = []"
| "replace_from m f whole off (c # cs) =
     (case m (c # cs) of
        None \<Rightarrow> c # replace_from m f whole (Suc off) cs
      | Some (n, caps) \<Rightarrow>
          (case n of
             0 \<Rightarrow> c # replace_from m f whole (Suc off) cs
           | Suc k \<Rightarrow> f (take n (c # cs)) caps off whole
                      @ replace_from m f whole (off + n) (drop k cs)))"

definition replace :: "string \<Rightarrow> matcher \<Rightarrow> replacer \<Rightarrow> string" where
  "replace s m f = replace_from m f s 0 s"

text \<open>The captures of every match, in order: what iterating \<^verbatim>\<open>matchAll\<close> visits.\<close>

fun matchAll_from :: "matcher \<Rightarrow> string \<Rightarrow> string list list" where
  "matchAll_from m [] = []"
| "matchAll_from m (c # cs) =
     (case m (c # cs) of
        None \<Rightarrow> matchAll_from m cs
      | Some (n, caps) \<Rightarrow>
          (case n of
             0 \<Rightarrow> matchAll_from m cs
           | Suc k \<Rightarrow> caps # matchAll_from m (drop k cs)))"

text \<open>
  A replacement given as a string is expanded as \<^verbatim>\<open>GetSubstitution\<close> does for a pattern
  without capture groups: \<^verbatim>\<open>$$\<close>, \<^verbatim>\<open>$&\<close>, the text before the match and the text
  behind it; every other dollar sign stands for itself.
\<close>

fun expand :: "string \<Rightarrow> string \<Rightarrow> string \<Rightarrow> string \<Rightarrow> string" where
  "expand [] matched pre post = []"
| "expand [c] matched pre post = [c]"
| "expand (c # d # t) matched pre post =
     (if c = CHR ''$'' \<and> d = CHR ''$'' then CHR ''$'' # expand t matched pre post
      else if c = CHR ''$'' \<and> d = CHR ''&'' then matched @ expand t matched pre post
      else if c = CHR ''$'' \<and> d = CHR 0x60 then pre @ expand t matched pre post
      else if c = CHR ''$'' \<and> d = CHR 0x27 then post @ expand t matched pre post
      else c # expand (d # t) matched pre post)"

text \<open>
  The second argument of \<^verbatim>\<open>replace\<close> as a value: a function is called with the match,
  anything else is coerced to a string and expanded.
\<close>

definition replacer_of :: "jsval \<Rightarrow> replacer" where
  "replacer_of v matched caps off whole =
     (case v of
        Fun src f \<Rightarrow> to_string (f (Some matched))
      | _ \<Rightarrow> expand (to_string v) matched (take off whole) (drop (off + length matched) whole))"

text \<open>
  Case-insensitive matching without the unicode flag compares the upper-case forms of
  the code units; below 256 these are the ASCII letters and the Latin-1 letters.
\<close>

definition canon :: "char \<Rightarrow> char" where
  "canon c = (let n = (of_char c :: int) in
     if (97 \<le> n \<and> n \<le> 122) \<or> (224 \<le> n \<and> n \<le> 254 \<and> n \<noteq> 247) then char_of (n - 32) else c)"

fun startsWith_ci :: "string \<Rightarrow> string \<Rightarrow> bool" where
  "startsWith_ci s [] = True"
| "startsWith_ci [] (p # ps) = False"
| "startsWith_ci (c # cs) (p # ps) = (canon c = canon p \<and> startsWith_ci cs ps)"

text \<open>A literal pattern with the flags \<^verbatim>\<open>gi\<close>, such as \<^verbatim>\<open>/{{noop}}/gi\<close>.\<close>

definition lit :: "string \<Rightarrow> matcher" where
  "lit p s = (if startsWith_ci s p then Some (length p, []) else None)"

text \<open>\<^verbatim>\<open>indexOf\<close>, and the last occurrence.\<close>

fun find_sub :: "string \<Rightarrow> string \<Rightarrow> nat option" where
  "find_sub [] p = (if p = [] then Some 0 else None)"
| "find_sub (c # cs) p =
     (if startsWith (c # cs) p then Some 0 else map_option Suc (find_sub cs p))"

fun find_last :: "string \<Rightarrow> string \<Rightarrow> nat option" where
  "find_last [] p = (if p = [] then Some 0 else None)"
| "find_last (c # cs) p =
     (case find_last cs p of
        Some n \<Rightarrow> Some (Suc n)
      | None \<Rightarrow> if startsWith (c # cs) p then Some 0 else None)"

text \<open>
  \<^verbatim>\<open>([^}]+)}}\<close>: the longest run without a closing brace, not empty, followed by two
  closing braces. A shorter run is followed by a character of the run, so backtracking
  finds nothing else.
\<close>

definition brace_body :: "string \<Rightarrow> string option" where
  "brace_body r =
     (let b = takeWhile (\<lambda>c. c \<noteq> CHR ''}'') r in
      if b \<noteq> [] \<and> startsWith (drop (length b) r) ''}}'' then Some b else None)"

text \<open>\<^verbatim>\<open>/{{roll[ : ]([^}]+)}}/gi\<close>\<close>

definition rollPattern :: matcher where
  "rollPattern s =
     (if startsWith_ci s ''{{roll'' then
        (case drop 6 s of
           [] \<Rightarrow> None
         | c # r \<Rightarrow>
             if c = CHR '' '' \<or> c = CHR '':'' then
               (case brace_body r of
                  None \<Rightarrow> None
                | Some b \<Rightarrow> Some (6 + 1 + length b + 2, [b]))
             else None)
      else None)"

text \<open>
  \<^verbatim>\<open>/{{random\s?::?([^}]+)}}/gi\<close> and \<^verbatim>\<open>/{{pick\s?::?([^}]+)}}/gi\<close>, which differ in
  the keyword only. The optional second colon is taken when the rest then matches, and
  left to the capture otherwise.
\<close>

definition list_pattern :: "string \<Rightarrow> matcher" where
  "list_pattern keyword s =
     (if startsWith_ci s keyword then
        (let r0 = drop (length keyword) s;
             w = (case r0 of [] \<Rightarrow> 0 | c # r \<Rightarrow> if is_space c then 1 else (0::nat));
             r1 = drop w r0
         in case r1 of
              [] \<Rightarrow> None
            | c # r2 \<Rightarrow>
                if c = CHR '':'' then
                  (case (if startsWith r2 '':'' then brace_body (drop 1 r2) else None) of
                     Some b \<Rightarrow> Some (length keyword + w + 2 + length b + 2, [b])
                   | None \<Rightarrow>
                       (case brace_body r2 of
                          Some b \<Rightarrow> Some (length keyword + w + 1 + length b + 2, [b])
                        | None \<Rightarrow> None))
                else None)
      else None)"

definition randomPattern :: matcher where
  "randomPattern = list_pattern ''{{random''"

definition pickPattern :: matcher where
  "pickPattern = list_pattern ''{{pick''"

text \<open>\<^verbatim>\<open>/(?:\r?\n)*{{trim}}(?:\r?\n)*/gi\<close>\<close>

fun linebreaks :: "string \<Rightarrow> nat" where
  "linebreaks [] = 0"
| "linebreaks [c] = (if c = CHR 0x0A then 1 else 0)"
| "linebreaks (c # d # r) =
     (if c = CHR 0x0A then 1 + linebreaks (d # r)
      else if c = CHR 0x0D \<and> d = CHR 0x0A then 2 + linebreaks r
      else 0)"

definition trimPattern :: matcher where
  "trimPattern s =
     (let k = linebreaks s; r = drop k s in
      if startsWith_ci r ''{{trim}}'' then Some (k + 8 + linebreaks (drop 8 r), []) else None)"

text \<open>\<^verbatim>\<open>/{{reverse:(.+?)}}/gi\<close>: the dot matches no line terminator.\<close>

definition reversePattern :: matcher where
  "reversePattern s =
     (if startsWith_ci s ''{{reverse:'' then
        (case drop 10 s of
           [] \<Rightarrow> None
         | c # r \<Rightarrow>
             (case find_sub r ''}}'' of
                None \<Rightarrow> None
              | Some n \<Rightarrow>
                  if list_ex is_line_terminator (take (Suc n) (c # r)) then None
                  else Some (10 + Suc n + 2, [take (Suc n) (c # r)])))
      else None)"

text \<open>\<^verbatim>\<open>/\{\{\/\/([\s\S]*?)\}\}/gm\<close>\<close>

definition commentPattern :: matcher where
  "commentPattern s =
     (if startsWith s ''{{//'' then
        (case find_sub (drop 4 s) ''}}'' of
           None \<Rightarrow> None
         | Some n \<Rightarrow> Some (4 + n + 2, [take n (drop 4 s)]))
      else None)"

text \<open>\<^verbatim>\<open>/{{datetimeformat +([^}]*)}}/gi\<close>\<close>

definition datetimeformatPattern :: matcher where
  "datetimeformatPattern s =
     (if startsWith_ci s ''{{datetimeformat'' then
        (let r = drop 16 s;
             sp = length (takeWhile (\<lambda>c. c = CHR '' '') r);
             b = takeWhile (\<lambda>c. c \<noteq> CHR ''}'') (drop sp r)
         in if 0 < sp \<and> startsWith (drop (sp + length b) r) ''}}''
            then Some (16 + sp + length b + 2, [b]) else None)
      else None)"

text \<open>\<^verbatim>\<open>/{{time_UTC([-+]\d+)}}/gi\<close>\<close>

definition timeUTCPattern :: matcher where
  "timeUTCPattern s =
     (if startsWith_ci s ''{{time_UTC'' then
        (case drop 10 s of
           [] \<Rightarrow> None
         | c # r \<Rightarrow>
             (let ds = takeWhile is_digit r in
              if (c = CHR ''-'' \<or> c = CHR ''+'') \<and> ds \<noteq> [] \<and> startsWith (drop (length ds) r) ''}}''
              then Some (10 + 1 + length ds + 2, [c # ds]) else None))
      else None)"

text \<open>
  \<^verbatim>\<open>/{{timeDiff::(.*?)::(.*?)}}/gi\<close>: the first capture ends at the first double colon,
  the second at the first closing pair behind it; a line terminator on the way lets the
  match fail, and then no later double colon succeeds either.
\<close>

definition timeDiffPattern :: matcher where
  "timeDiffPattern s =
     (if startsWith_ci s ''{{timeDiff::'' then
        (let r = drop 12 s in
         case find_sub r ''::'' of
           None \<Rightarrow> None
         | Some n \<Rightarrow>
             (case find_sub (drop (n + 2) r) ''}}'' of
                None \<Rightarrow> None
              | Some k \<Rightarrow>
                  if list_ex is_line_terminator (take (n + 2 + k) r) then None
                  else Some (12 + n + 2 + k + 2, [take n r, take k (drop (n + 2) r)])))
      else None)"

text \<open>
  \<^verbatim>\<open>/{{banned "(.*)"}}/gi\<close>: the greedy capture ends at the last quote followed by two
  closing braces on the same line.
\<close>

definition banPattern :: matcher where
  "banPattern s =
     (if startsWith_ci s (''{{banned '' @ [CHR 0x22]) then
        (let line = takeWhile (\<lambda>c. \<not> is_line_terminator c) (drop 10 s) in
         case find_last line (CHR 0x22 # ''}}'') of
           None \<Rightarrow> None
         | Some n \<Rightarrow> Some (10 + n + 3, [take n line]))
      else None)"

section \<open>The chat, the page and the libraries\<close>

text \<open>
  What the engine reads from its surroundings is one record. A message has the fields
  the engine looks at; \<open>swipe_id\<close> may be absent or \<^verbatim>\<open>null\<close>. The functions of
  \<^verbatim>\<open>lib.js\<close>, \<^verbatim>\<open>utils.js\<close>, \<^verbatim>\<open>instruct-mode.js\<close> and \<^verbatim>\<open>variables.js\<close> are fields:
  the hash of a value, the first number in \<open>[0, 1)\<close> of a generator seeded with a number
  (as the numerator of a fraction of \<open>2 ^ 53\<close>), the first number of a generator seeded
  with entropy and the total of a dice roll (both may differ from call to call, so they
  depend on the offset of the match whose replacement asks for them), the validity of a
  dice formula, and the formatting of the current time, read as one instant.
\<close>

datatype optnum = Absent | NullNum | Number int

record message =
  is_user :: bool
  is_system :: bool
  mes :: jsval
  send_date :: jsval
  swipes :: "string list option"
  swipe_id :: optnum

type_synonym env = "(string \<times> jsval) list"

record world =
  chat :: "message list"
  chat_id_hash :: jsval
  main_chat :: jsval
  getCurrentChatId :: jsval
  main_api :: string
  textgenerationwebui_banned_in_macros :: "string list"
  getMaxContextSize :: jsval
  send_textarea :: jsval
  lastInContext_mesid :: "int option"
  uuidv4 :: string
  getStringHash :: "jsval \<Rightarrow> int"
  seedrandom :: "int \<Rightarrow> 53 word"
  seedrandom_entropy :: "nat \<Rightarrow> 53 word"
  droll_validate :: "string \<Rightarrow> bool"
  droll_roll_total :: "nat \<Rightarrow> string \<Rightarrow> int"
  moment_format :: "string \<Rightarrow> string"
  moment_format_utcOffset :: "int \<Rightarrow> string"
  timeDiff_humanize :: "string \<Rightarrow> string \<Rightarrow> string"
  idle_humanize :: "jsval \<Rightarrow> string"
  replaceInstructMacros :: "string \<Rightarrow> env \<Rightarrow> jsfun \<Rightarrow> string"
  replaceVariableMacros :: "string \<Rightarrow> jsfun \<Rightarrow> string"

text \<open>
  \<^verbatim>\<open>Math.floor(rng() * n)\<close> for the number \<open>r / 2 ^ 53\<close> that the generator returns,
  the product taken exactly.
\<close>

definition floor_times :: "53 word \<Rightarrow> nat \<Rightarrow> nat" where
  "floor_times r n = nat ((uint r * int n) div 2 ^ 53)"

text \<open>
  Modelled from the spec: \<^verbatim>\<open>isDigitsOnly\<close> of \<^verbatim>\<open>utils.js\<close>, "the argument is purely
  digits".
\<close>

definition isDigitsOnly :: "string \<Rightarrow> bool" where
  "isDigitsOnly s = (s \<noteq> [] \<and> list_all is_digit s)"

definition int_of_digits :: "string \<Rightarrow> int" where
  "int_of_digits s = foldl (\<lambda>a c. 10 * a + (of_char c - 48)) 0 s"

text \<open>\<^verbatim>\<open>parseInt(offset, 10)\<close> on a sign followed by digits.\<close>

definition parseInt :: "string \<Rightarrow> int" where
  "parseInt s =
     (case s of
        [] \<Rightarrow> 0
      | c # ds \<Rightarrow> if c = CHR ''-'' then - int_of_digits ds else int_of_digits ds)"

subsection \<open>The environment object\<close>

text \<open>
  The environment is an object; the list holds its own properties in the order in
  which \<^verbatim>\<open>for ... in\<close> visits them: array indices first, ascending, then the other
  keys in the order of their creation. \<open>env_set\<close> is the assignment \<^verbatim>\<open>env[key] = value\<close>.
\<close>

definition env_get :: "env \<Rightarrow> string \<Rightarrow> jsval" where
  "env_get e k = (case map_of e k of None \<Rightarrow> Undefined | Some v \<Rightarrow> v)"

definition is_array_index :: "string \<Rightarrow> bool" where
  "is_array_index s =
     (isDigitsOnly s \<and> (if startsWith s ''0'' then s = ''0'' else True)
      \<and> int_of_digits s < 2 ^ 32 - 1)"

fun insert_index :: "env \<Rightarrow> string \<Rightarrow> jsval \<Rightarrow> env" where
  "insert_index [] k v = [(k, v)]"
| "insert_index ((k', v') # e) k v =
     (if is_array_index k' \<and> int_of_digits k' < int_of_digits k
      then (k', v') # insert_index e k v
      else (k, v) # (k', v') # e)"

definition env_set :: "env \<Rightarrow> string \<Rightarrow> jsval \<Rightarrow> env" where
  "env_set e k v =
     (if map_has e k then map_set e k v
      else if is_array_index k then insert_index e k v
      else e @ [(k, v)])"

fun populateEnv :: "registry \<Rightarrow> env \<Rightarrow> env" where
  "populateEnv [] e = e"
| "populateEnv ((k, v) # macros) e = populateEnv macros (env_set e k v)"

text \<open>\<^verbatim>\<open>typeof v === 'function' ? v() : v\<close>\<close>

fun resolve :: "jsval \<Rightarrow> jsval" where
  "resolve (Fun src f) = f None"
| "resolve v = v"

text \<open>\<^verbatim>\<open>typeof param === 'function' ? param(nonce) : param\<close>\<close>

fun resolve_with :: "string \<Rightarrow> jsval \<Rightarrow> jsval" where
  "resolve_with nonce (Fun src f) = f (Some nonce)"
| "resolve_with nonce v = v"

subsection \<open>Reading the chat\<close>

fun ge_length :: "optnum \<Rightarrow> nat \<Rightarrow> bool" where
  "ge_length Absent n = False"
| "ge_length NullNum n = (n = 0)"
| "ge_length (Number i) n = (int n \<le> i)"

text \<open>
  The loop of \<^verbatim>\<open>getLastMessageId\<close>, \<open>i\<close> running from \<^verbatim>\<open>chat.length - 1\<close> down to 0;
  the argument is \<open>i + 1\<close>.
\<close>

fun lastMessageId_loop ::
  "message list \<Rightarrow> bool \<Rightarrow> (message \<Rightarrow> bool) option \<Rightarrow> nat \<Rightarrow> nat option" where
  "lastMessageId_loop c exclude flt 0 = None"
| "lastMessageId_loop c exclude flt (Suc i) =
     (let message = c ! i in
      if exclude \<and> (case swipes message of None \<Rightarrow> False
                     | Some sw \<Rightarrow> ge_length (swipe_id message) (length sw))
      then lastMessageId_loop c exclude flt i
      else if (case flt of None \<Rightarrow> True | Some f \<Rightarrow> f message) then Some i
      else lastMessageId_loop c exclude flt i)"

definition getLastMessageId ::
  "world \<Rightarrow> bool \<Rightarrow> (message \<Rightarrow> bool) option \<Rightarrow> nat option" where
  "getLastMessageId w exclude_swipe_in_propress flt =
     lastMessageId_loop (chat w) exclude_swipe_in_propress flt (length (chat w))"

text \<open>\<^verbatim>\<open>chat[mid]?.mes ?? ''\<close>\<close>

definition mes_at :: "world \<Rightarrow> nat option \<Rightarrow> jsval" where
  "mes_at w mid =
     (case mid of None \<Rightarrow> Str [] | Some i \<Rightarrow> coalesce (mes (chat w ! i)) (Str []))"

definition getLastMessage :: "world \<Rightarrow> jsval" where
  "getLastMessage w = mes_at w (getLastMessageId w True None)"

definition getLastUserMessage :: "world \<Rightarrow> jsval" where
  "getLastUserMessage w =
     mes_at w (getLastMessageId w True (Some (\<lambda>m. is_user m \<and> \<not> is_system m)))"

definition getLastCharMessage :: "world \<Rightarrow> jsval" where
  "getLastCharMessage w =
     mes_at w (getLastMessageId w True (Some (\<lambda>m. \<not> is_user m \<and> \<not> is_system m)))"

definition getFirstIncludedMessageId :: "world \<Rightarrow> jsval" where
  "getFirstIncludedMessageId w =
     (case lastInContext_mesid w of
        None \<Rightarrow> Null
      | Some index \<Rightarrow> if 0 \<le> index then Num index else Null)"

definition getLastSwipeId :: "world \<Rightarrow> jsval" where
  "getLastSwipeId w =
     (case getLastMessageId w False None of
        None \<Rightarrow> Undefined
      | Some mid \<Rightarrow>
          (case swipes (chat w ! mid) of
             None \<Rightarrow> Undefined
           | Some sw \<Rightarrow> Num (int (length sw))))"

text \<open>
  \<^verbatim>\<open>swipeId !== null ? swipeId + 1 : null\<close>, where \<^verbatim>\<open>chat[mid]?.swipe_id\<close> is
  \<^verbatim>\<open>undefined\<close> when there is no message or the message has no such field.
\<close>

definition getCurrentSwipeId :: "world \<Rightarrow> jsval" where
  "getCurrentSwipeId w =
     (let swipeId = (case getLastMessageId w False None of
                       None \<Rightarrow> Absent
                     | Some mid \<Rightarrow> swipe_id (chat w ! mid))
      in case swipeId of
           NullNum \<Rightarrow> Null
         | Absent \<Rightarrow> NaN
         | Number i \<Rightarrow> Num (i + 1))"

fun idle_loop :: "message list \<Rightarrow> bool \<Rightarrow> nat \<Rightarrow> message option" where
  "idle_loop c takeNext 0 = None"
| "idle_loop c takeNext (Suc i) =
     (let message = c ! i in
      if is_system message then idle_loop c takeNext i
      else if is_user message \<and> takeNext then Some message
      else idle_loop c True i)"

definition getTimeSinceLastMessage :: "world \<Rightarrow> string" where
  "getTimeSinceLastMessage w =
     (case idle_loop (chat w) False (length (chat w)) of
        None \<Rightarrow> ''just now''
      | Some lastMessage \<Rightarrow>
          if truthy (send_date lastMessage) then idle_humanize w (send_date lastMessage)
          else ''just now'')"

definition getChatIdHash :: "world \<Rightarrow> jsval \<times> world" where
  "getChatIdHash w =
     (let cachedIdHash = chat_id_hash w in
      if \<not> truthy cachedIdHash then
        (let chatId = coalesce (main_chat w) (getCurrentChatId w);
             chatIdHash = Num (getStringHash w chatId)
         in (chatIdHash, w\<lparr>chat_id_hash := chatIdHash\<rparr>))
      else (cachedIdHash, w))"


section \<open>The replacers\<close>

text \<open>A capture group by its index; \<^verbatim>\<open>list[i]\<close>, which is \<^verbatim>\<open>undefined\<close> out of range.\<close>

definition cap :: "string list \<Rightarrow> nat \<Rightarrow> string" where
  "cap caps i = (if i < length caps then caps ! i else [])"

definition item_at :: "string list \<Rightarrow> nat \<Rightarrow> jsval" where
  "item_at xs i = (if i < length xs then Str (xs ! i) else Undefined)"

text \<open>A parameter with a default value takes it when the argument is left out.\<close>

definition default_to :: "'a \<Rightarrow> 'a option \<Rightarrow> 'a" where
  "default_to d a = (case a of None \<Rightarrow> d | Some x \<Rightarrow> x)"

subsection \<open>Lists of alternatives\<close>

text \<open>
  \<^verbatim>\<open>split\<close> with a separator that is not empty. The text that stands in for an
  escaped comma contains the code unit U+FFFD, which no string of the model contains,
  so it is a token of its own.
\<close>

fun split :: "'a list \<Rightarrow> 'a list \<Rightarrow> 'a list list" where
  "split [] sep = [[]]"
| "split (c # cs) sep =
     (if sep \<noteq> [] \<and> startsWith (c # cs) sep
      then [] # split (drop (length sep - 1) cs) sep
      else (case split cs sep of
              [] \<Rightarrow> [[c]]
            | item # items \<Rightarrow> (c # item) # items))"

datatype tok = Chr char | CommaPlaceholder

fun escape_commas :: "string \<Rightarrow> tok list" where
  "escape_commas [] = []"
| "escape_commas [c] = [Chr c]"
| "escape_commas (c # d # r) =
     (if c = CHR 0x5C \<and> d = CHR '','' then CommaPlaceholder # escape_commas r
      else Chr c # escape_commas (d # r))"

fun tok_is_space :: "tok \<Rightarrow> bool" where
  "tok_is_space (Chr c) = is_space c"
| "tok_is_space CommaPlaceholder = False"

definition trim_toks :: "tok list \<Rightarrow> tok list" where
  "trim_toks s = rev (dropWhile tok_is_space (rev (dropWhile tok_is_space s)))"

fun restore_commas :: "tok list \<Rightarrow> string" where
  "restore_commas [] = []"
| "restore_commas (Chr c # ts) = c # restore_commas ts"
| "restore_commas (CommaPlaceholder # ts) = CHR '','' # restore_commas ts"

definition parse_list :: "string \<Rightarrow> string list" where
  "parse_list listString =
     (if str_includes listString ''::'' then split listString ''::''
      else map (\<lambda>item. restore_commas (trim_toks item))
             (split (escape_commas listString) [Chr (CHR '','')]))"

subsection \<open>\<^verbatim>\<open>randomReplace\<close>, \<^verbatim>\<open>pickReplace\<close>, \<^verbatim>\<open>diceRollReplace\<close>\<close>

definition random_callback :: "world \<Rightarrow> jsval \<Rightarrow> jsfun \<Rightarrow> replacer" where
  "random_callback w emptyListPlaceholder varEscape matched caps offset whole =
     (let list = parse_list (cap caps 0) in
      if length list = 0 then to_string emptyListPlaceholder
      else
        let rng = seedrandom_entropy w offset;
            randomIndex = floor_times rng (length list)
        in to_string (call varEscape (item_at list randomIndex)))"

definition randomReplace :: "world \<Rightarrow> string \<Rightarrow> jsval option \<Rightarrow> jsfun option \<Rightarrow> string" where
  "randomReplace w input emptyListPlaceholder varEscape =
     replace input randomPattern
       (random_callback w (default_to (Str []) emptyListPlaceholder)
          (default_to identity_escape varEscape))"

definition combinedSeedString :: "jsval \<Rightarrow> int \<Rightarrow> nat \<Rightarrow> string" where
  "combinedSeedString chatIdHash rawContentHash offset =
     to_string chatIdHash @ ''-'' @ dec_int rawContentHash @ ''-'' @ dec (int offset)"

definition pick_callback ::
  "world \<Rightarrow> jsval \<Rightarrow> int \<Rightarrow> jsval \<Rightarrow> jsfun \<Rightarrow> replacer" where
  "pick_callback w chatIdHash rawContentHash emptyListPlaceholder varEscape
       matched caps offset whole =
     (let list = parse_list (cap caps 0) in
      if length list = 0 then to_string emptyListPlaceholder
      else
        let finalSeed = getStringHash w (Str (combinedSeedString chatIdHash rawContentHash offset));
            rng = seedrandom w finalSeed;
            randomIndex = floor_times rng (length list)
        in to_string (call varEscape (item_at list randomIndex)))"

definition pickReplace ::
  "world \<Rightarrow> string \<Rightarrow> string \<Rightarrow> jsval option \<Rightarrow> jsfun option \<Rightarrow> string \<times> world" where
  "pickReplace w input rawContent emptyListPlaceholder varEscape =
     (let (chatIdHash, w') = getChatIdHash w;
          rawContentHash = getStringHash w (Str rawContent)
      in (replace input pickPattern
            (pick_callback w chatIdHash rawContentHash
               (default_to (Str []) emptyListPlaceholder)
               (default_to identity_escape varEscape)),
          w'))"

definition roll_callback :: "world \<Rightarrow> jsval \<Rightarrow> jsfun \<Rightarrow> replacer" where
  "roll_callback w invalidRollPlaceholder varEscape matched caps offset whole =
     (let formula0 = trim (cap caps 0);
          formula = (if isDigitsOnly formula0 then ''1d'' @ formula0 else formula0);
          isValid = droll_validate w formula
      in if \<not> isValid then to_string invalidRollPlaceholder
         else to_string (call varEscape (Str (dec_int (droll_roll_total w offset formula)))))"

definition diceRollReplace :: "world \<Rightarrow> string \<Rightarrow> jsval option \<Rightarrow> jsfun option \<Rightarrow> string" where
  "diceRollReplace w input invalidRollPlaceholder varEscape =
     replace input rollPattern
       (roll_callback w (default_to (Str []) invalidRollPlaceholder)
          (default_to identity_escape varEscape))"

subsection \<open>\<^verbatim>\<open>timeDiffReplace\<close> and \<^verbatim>\<open>bannedWordsReplace\<close>\<close>

definition timeDiffReplace :: "world \<Rightarrow> string \<Rightarrow> jsfun option \<Rightarrow> string" where
  "timeDiffReplace w input varEscape =
     replace input timeDiffPattern
       (\<lambda>matched caps offset whole.
          to_string (call (default_to identity_escape varEscape)
            (Str (timeDiff_humanize w (cap caps 0) (cap caps 1)))))"

definition bannedWordsReplace :: "world \<Rightarrow> string \<Rightarrow> string \<times> world" where
  "bannedWordsReplace w inText =
     (if inText = [] then ([], w)
      else
        let w' = (if main_api w = ''textgenerationwebui''
                  then w\<lparr>textgenerationwebui_banned_in_macros :=
                          textgenerationwebui_banned_in_macros w
                            @ map (\<lambda>banCase. cap banCase 0) (matchAll_from banPattern inText)\<rparr>
                  else w)
        in (replace inText banPattern (replacer_of (Str [])), w'))"

section \<open>The evaluation pipeline\<close>

text \<open>An arrow function without parameters that returns \<^verbatim>\<open>varEscape(v)\<close>.\<close>

definition escaped :: "jsfun \<Rightarrow> jsval \<Rightarrow> replacer" where
  "escaped varEscape v matched caps offset whole = to_string (call varEscape v)"

definition legacy_substitutions :: "env \<Rightarrow> jsfun \<Rightarrow> string \<Rightarrow> string" where
  "legacy_substitutions e varEscape content0 =
     (let content1 = replace content0 (lit ''<USER>'')
                       (replacer_of (call varEscape (resolve (env_get e ''user''))));
          content2 = replace content1 (lit ''<BOT>'')
                       (replacer_of (call varEscape (resolve (env_get e ''char''))));
          content3 = replace content2 (lit ''<CHAR>'')
                       (replacer_of (call varEscape (resolve (env_get e ''char''))));
          content4 = replace content3 (lit ''<CHARIFNOTGROUP>'')
                       (replacer_of (call varEscape (resolve (env_get e ''group''))));
          content5 = replace content4 (lit ''<GROUP>'')
                       (replacer_of (call varEscape (resolve (env_get e ''group''))))
      in content5)"

text \<open>
  Modelled from the spec: \<^verbatim>\<open>escapeRegex\<close> of \<^verbatim>\<open>utils.js\<close>, "regex construction must
  escape the key literally (keys are not treated as patterns)", so the pattern of a key is
  the literal key between the braces. \<open>env_loop\<close> is the loop over the keys of the
  environment.
\<close>

fun env_loop :: "string \<Rightarrow> jsfun \<Rightarrow> env \<Rightarrow> string list \<Rightarrow> string \<Rightarrow> string" where
  "env_loop nonce varEscape e [] content = content"
| "env_loop nonce varEscape e (varName # varNames) content =
     env_loop nonce varEscape e varNames
       (replace content (lit (''{{'' @ varName @ ''}}''))
          (\<lambda>matched caps offset whole.
             let param = env_get e varName;
                 v = sanitizeMacroValue (resolve_with nonce param)
             in to_string (call varEscape (Str v))))"

definition marker_macros :: "world \<Rightarrow> jsfun \<Rightarrow> string \<Rightarrow> string" where
  "marker_macros w varEscape content0 =
     (let content1 = replace content0 (lit ''{{newline}}'')
                       (replacer_of (call varEscape (Str [CHR 0x0A])));
          content2 = replace content1 trimPattern (replacer_of (Str []));
          content3 = replace content2 (lit ''{{noop}}'') (replacer_of (Str []));
          content4 = replace content3 (lit ''{{input}}'')
                       (escaped varEscape (Str (to_string (send_textarea w))))
      in content4)"

definition builtin_macros :: "world \<Rightarrow> jsfun \<Rightarrow> string \<Rightarrow> string" where
  "builtin_macros w varEscape content0 =
     (let content1 = replace content0 (lit ''{{maxPrompt}}'')
                       (escaped varEscape (Str (to_string (getMaxContextSize w))));
          content2 = replace content1 (lit ''{{lastMessage}}'')
                       (escaped varEscape (getLastMessage w));
          content3 = replace content2 (lit ''{{lastMessageId}}'')
                       (escaped varEscape (Str (case getLastMessageId w True None of
                                                 None \<Rightarrow> [] | Some i \<Rightarrow> dec (int i))));
          content4 = replace content3 (lit ''{{lastUserMessage}}'')
                       (escaped varEscape (getLastUserMessage w));
          content5 = replace content4 (lit ''{{lastCharMessage}}'')
                       (escaped varEscape (getLastCharMessage w));
          content6 = replace content5 (lit ''{{firstIncludedMessageId}}'')
                       (escaped varEscape
                          (Str (to_string (coalesce (getFirstIncludedMessageId w) (Str [])))));
          content7 = replace content6 (lit ''{{lastSwipeId}}'')
                       (escaped varEscape (Str (to_string (coalesce (getLastSwipeId w) (Str [])))));
          content8 = replace content7 (lit ''{{currentSwipeId}}'')
                       (escaped varEscape
                          (Str (to_string (coalesce (getCurrentSwipeId w) (Str [])))));
          content9 = replace content8 reversePattern
                       (\<lambda>matched caps offset whole.
                          to_string (call varEscape (Str (rev (cap caps 0)))))
      in content9)"

definition time_macros :: "world \<Rightarrow> jsfun \<Rightarrow> string \<Rightarrow> string" where
  "time_macros w varEscape content0 =
     (let content1 = replace content0 (lit ''{{time}}'')
                       (escaped varEscape (Str (moment_format w ''LT'')));
          content2 = replace content1 (lit ''{{date}}'')
                       (escaped varEscape (Str (moment_format w ''LL'')));
          content3 = replace content2 (lit ''{{weekday}}'')
                       (escaped varEscape (Str (moment_format w ''dddd'')));
          content4 = replace content3 (lit ''{{isotime}}'')
                       (escaped varEscape (Str (moment_format w ''HH:mm'')));
          content5 = replace content4 (lit ''{{isodate}}'')
                       (escaped varEscape (Str (moment_format w ''YYYY-MM-DD'')));
          content6 = replace content5 datetimeformatPattern
                       (\<lambda>matched caps offset whole.
                          to_string (call varEscape (Str (moment_format w (cap caps 0)))));
          content7 = replace content6 (lit ''{{idle_duration}}'')
                       (\<lambda>matched caps offset whole. getTimeSinceLastMessage w);
          content8 = replace content7 timeUTCPattern
                       (\<lambda>matched caps offset whole.
                          to_string (call varEscape
                            (Str (moment_format_utcOffset w (parseInt (cap caps 0))))))
      in content8)"

text \<open>
  The passes of \<^verbatim>\<open>evaluateMacros\<close> behind the loop over the environment, from
  \<^verbatim>\<open>{{maxPrompt}}\<close> to \<^verbatim>\<open>pickReplace\<close>.
\<close>

definition final_passes :: "world \<Rightarrow> jsfun \<Rightarrow> string \<Rightarrow> string \<Rightarrow> string \<times> world" where
  "final_passes w varEscape rawContent content0 =
     (let content1 = builtin_macros w varEscape content0;
          content2 = replace content1 commentPattern (replacer_of (Str []));
          content3 = time_macros w varEscape content2;
          content4 = timeDiffReplace w content3 (Some varEscape);
          (content5, w') = bannedWordsReplace w content4;
          content6 = randomReplace w' content5 (Some (fun_val varEscape)) None
      in pickReplace w' content6 rawContent (Some (fun_val varEscape)) None)"

text \<open>
  \<^verbatim>\<open>evaluateMacros\<close> returns the text; the model returns with it the environment object,
  which \<^verbatim>\<open>populateEnv\<close> has written to, and the surroundings, where the chat-id hash
  and the banned words are stored. \<open>macros\<close> is the registry at the time of the call.
\<close>

definition evaluateMacros ::
  "world \<Rightarrow> registry \<Rightarrow> string \<Rightarrow> env \<Rightarrow> jsfun option \<Rightarrow> string \<times> env \<times> world" where
  "evaluateMacros w macros content0 e varEscape0 =
     (if content0 = [] then ([], e, w)
      else
        let varEscape = default_to identity_escape varEscape0;
            rawContent = content0;
            content1 = legacy_substitutions e varEscape content0
        in if \<not> str_includes content1 ''{{'' then (content1, e, w)
           else
             let content2 = diceRollReplace w content1 (Some (fun_val varEscape)) None;
                 content3 = replaceInstructMacros w content2 e varEscape;
                 content4 = replaceVariableMacros w content3 varEscape;
                 content5 = marker_macros w varEscape content4;
                 nonce = uuidv4 w;
                 e' = populateEnv macros e;
                 content6 = env_loop nonce varEscape e' (map fst e') content5;
                 (content7, w') = final_passes w varEscape rawContent content6
             in (content7, e', w'))"

section \<open>Example surroundings\<close>

text \<open>
  Surroundings for the concrete evaluations: an empty chat, a hash that adds up the code
  units of the string form, a seeded generator whose first number is the sixteenth part
  given by the seed, dice that know two formulas, and collaborator passes that leave the
  text as it is. \<open>bracket_escape\<close> is an escaping function that can be seen in the result.
\<close>

definition code_sum :: "jsval \<Rightarrow> int" where
  "code_sum v = sum_list (map of_char (to_string v))"

definition example_world :: world where
  "example_world =
     \<lparr> chat = [],
       chat_id_hash = Undefined,
       main_chat = Undefined,
       getCurrentChatId = Str ''chat'',
       main_api = ''openai'',
       textgenerationwebui_banned_in_macros = [],
       getMaxContextSize = Num 4096,
       send_textarea = Str [],
       lastInContext_mesid = None,
       uuidv4 = ''nonce'',
       getStringHash = code_sum,
       seedrandom = (\<lambda>seed. word_of_int (seed * 2 ^ 49)),
       seedrandom_entropy = (\<lambda>offset. 0),
       droll_validate = (\<lambda>formula. formula = ''1d20'' \<or> formula = ''2d6''),
       droll_roll_total = (\<lambda>offset formula. if formula = ''1d20'' then 17 else 7),
       moment_format = (\<lambda>format. format),
       moment_format_utcOffset = (\<lambda>utcOffset. ''12:00''),
       timeDiff_humanize = (\<lambda>a b. ''a day ago''),
       idle_humanize = (\<lambda>d. ''a minute''),
       replaceInstructMacros = (\<lambda>content e varEscape. content),
       replaceVariableMacros = (\<lambda>content varEscape. content) \<rparr>"

definition bracket_escape :: jsfun where
  "bracket_escape = (''x => `[${x}]`'', \<lambda>x. Str (''['' @ to_string x @ '']''))"



section \<open>Properties of the registry\<close>

lemma map_has_iff: "map_has m k = (k \<in> fst ` set m)"
  by (induction m) auto

lemma map_delete_absent: "\<not> map_has macros k \<Longrightarrow> map_delete macros k = macros"
  by (induction macros) auto

lemma map_of_map_delete:
  "distinct (map fst macros) \<Longrightarrow> map_of (map_delete macros k) = (map_of macros)(k := None)"
proof (induction macros)
  case Nil
  then show ?case by simp
next
  case (Cons p macros)
  then show ?case
    by (cases p) (auto simp: fun_eq_iff map_of_eq_None_iff)
qed




text \<open>
  C6, as amended. \<^verbatim>\<open>unregisterMacro\<close> throws exactly when the key is not a string or is
  empty after trimming; the braces are not looked at. In every other case it deletes the
  entry of the trimmed key: the other entries stay, and a registry without the key is
  returned as it is.
\<close>

theorem unregisterMacro_throws_iff:
  "isl (unregisterMacro macros key) = (\<not> is_string key \<or> trim (to_string key) = [])
   \<and> (if isl (unregisterMacro macros key) then True
       else unregisterMacro macros key = Inr (map_delete macros (trim (to_string key)))
          \<and> (if map_has macros (trim (to_string key)) then True
              else map_delete macros (trim (to_string key)) = macros)
          \<and> (if distinct (map fst macros)
              then map_of (map_delete macros (trim (to_string key)))
                     = (map_of macros)(trim (to_string key) := None)
              else True))"
  by (cases key) (simp_all add: Let_def map_delete_absent map_of_map_delete)

theorem unregisterMacro_throws_iff_witness:
  "isl (unregisterMacro [(''foo'', Str ''B'')] (Str ''  ''))
   \<and> unregisterMacro [(''foo'', Str ''B'')] (Str ''bar'') = Inr [(''foo'', Str ''B'')]
   \<and> unregisterMacro [(''foo'', Str ''B'')] (Str '' foo'') = Inr []"
proof -
  have a: "trim (to_string (Str ''  '')) = []"
    by (simp add: trim_def is_space_def)
  have b: "trim (to_string (Str ''bar'')) = ''bar''" "trim (to_string (Str '' foo'')) = ''foo''"
    by (simp_all add: trim_def is_space_def)
  show ?thesis
    using a b unregisterMacro_throws_iff [of "[(''foo'', Str ''B'')]" "Str ''  ''"]
      unregisterMacro_throws_iff [of "[(''foo'', Str ''B'')]" "Str ''bar''"]
      unregisterMacro_throws_iff [of "[(''foo'', Str ''B'')]" "Str '' foo''"]
    by simp
qed

text \<open>
  C6, the claim as stated fails: a key that \<^verbatim>\<open>registerMacro\<close> rejects for its braces is
  accepted by \<^verbatim>\<open>unregisterMacro\<close>.
\<close>

theorem unregisterMacro_braces_counterexample:
  "isl (registerMacro [] (Str ''{{foo}}'') (Str ''v''))
   \<and> unregisterMacro [] (Str ''{{foo}}'') = Inr []"
  by (simp add: trim_def is_space_def)

section \<open>Text without an opening brace\<close>






















section \<open>The environment and the registry\<close>












section \<open>The short circuit\<close>

text \<open>
  C8. When the text, after the legacy substitutions, holds no opening pair of braces,
  \<^verbatim>\<open>evaluateMacros\<close> returns that text and does nothing else: the environment is not
  merged with the registry and nothing is stored.
\<close>

theorem evaluateMacros_short_circuit:
  "\<not> str_includes (legacy_substitutions e (default_to identity_escape varEscape) content) ''{{''
   \<Longrightarrow> evaluateMacros w macros content e varEscape
         = (legacy_substitutions e (default_to identity_escape varEscape) content, e, w)"
  by (cases "content = []")
     (simp_all add: evaluateMacros_def Let_def legacy_substitutions_def replace_def)

theorem evaluateMacros_short_circuit_witness:
  "\<not> str_includes (legacy_substitutions [(''user'', Str ''Al'')] (default_to identity_escape None)
         ''Hello <USER>'') ''{{''
   \<and> evaluateMacros example_world [(''x'', Str ''y'')] ''Hello <USER>'' [(''user'', Str ''Al'')] None
       = (''Hello Al'', [(''user'', Str ''Al'')], example_world)"
proof -
  have l: "legacy_substitutions [(''user'', Str ''Al'')] (default_to identity_escape None)
         ''Hello <USER>'' = ''Hello Al''"
    by code_simp
  have h: "\<not> str_includes (legacy_substitutions [(''user'', Str ''Al'')]
         (default_to identity_escape None) ''Hello <USER>'') ''{{''"
    by code_simp
  show ?thesis
    using h l evaluateMacros_short_circuit [OF h, of example_world "[(''x'', Str ''y'')]"]
    by simp
qed

section \<open>Lists of alternatives are never empty\<close>

lemma split_not_Nil: "split s sep \<noteq> []"
  by (induction s) (auto split: list.splits)

lemma parse_list_not_Nil: "parse_list listString \<noteq> []"
  by (simp add: parse_list_def split_not_Nil)

lemma floor_times_less: "0 < n \<Longrightarrow> floor_times r n < n"
proof -
  assume n: "0 < n"
  have "uint r < 2 ^ 53" using uint_lt2p [of r] by simp
  then have "uint r * int n < 2 ^ 53 * int n" using n by simp
  then have "(uint r * int n) div 2 ^ 53 < int n" by simp
  moreover have "0 \<le> (uint r * int n) div 2 ^ 53"
    by (simp add: pos_imp_zdiv_nonneg_iff)
  ultimately show ?thesis by (simp add: floor_times_def nat_less_iff)
qed

lemma random_callback_item:
  "random_callback w emptyListPlaceholder varEscape matched caps offset whole
     = to_string (call varEscape (Str (parse_list (cap caps 0)
         ! floor_times (seedrandom_entropy w offset) (length (parse_list (cap caps 0))))))"
  using parse_list_not_Nil [of "cap caps 0"]
    floor_times_less [of "length (parse_list (cap caps 0))" "seedrandom_entropy w offset"]
  by (simp add: random_callback_def Let_def item_at_def)

lemma pick_callback_item:
  "pick_callback w chatIdHash rawContentHash emptyListPlaceholder varEscape matched caps offset whole
     = to_string (call varEscape (Str (parse_list (cap caps 0)
         ! floor_times
             (seedrandom w (getStringHash w (Str (combinedSeedString chatIdHash rawContentHash offset))))
             (length (parse_list (cap caps 0))))))"
  using parse_list_not_Nil [of "cap caps 0"]
    floor_times_less [of "length (parse_list (cap caps 0))"
      "seedrandom w (getStringHash w (Str (combinedSeedString chatIdHash rawContentHash offset)))"]
  by (simp add: pick_callback_def Let_def item_at_def)

text \<open>
  C10. Whatever the captured text, splitting it yields at least one item, so the branch
  that returns the placeholder for an empty list is never taken, the index drawn lies
  within the list, and both callbacks return the escaped item at that index; the results
  of \<^verbatim>\<open>randomReplace\<close> and \<^verbatim>\<open>pickReplace\<close> do not depend on the placeholder.
\<close>

theorem empty_list_placeholder_unreachable:
  "parse_list listString \<noteq> []
   \<and> floor_times r (length (parse_list listString)) < length (parse_list listString)
   \<and> random_callback w emptyListPlaceholder varEscape matched caps offset whole
       = to_string (call varEscape (Str (parse_list (cap caps 0)
           ! floor_times (seedrandom_entropy w offset) (length (parse_list (cap caps 0))))))
   \<and> pick_callback w chatIdHash rawContentHash emptyListPlaceholder varEscape matched caps offset whole
       = to_string (call varEscape (Str (parse_list (cap caps 0)
           ! floor_times
               (seedrandom w (getStringHash w (Str (combinedSeedString chatIdHash rawContentHash offset))))
               (length (parse_list (cap caps 0))))))
   \<and> randomReplace w input (Some emptyListPlaceholder) escapeOption = randomReplace w input None escapeOption
   \<and> pickReplace w input rawContent (Some emptyListPlaceholder) escapeOption
       = pickReplace w input rawContent None escapeOption"
proof -
  have r: "random_callback w emptyListPlaceholder varEscape' = random_callback w (Str []) varEscape'"
    for varEscape'
    by (intro ext) (simp only: random_callback_item)
  have p: "pick_callback w h rh emptyListPlaceholder varEscape' = pick_callback w h rh (Str []) varEscape'"
    for h rh varEscape'
    by (intro ext) (simp only: pick_callback_item)
  have "randomReplace w input (Some emptyListPlaceholder) escapeOption = randomReplace w input None escapeOption"
    by (simp add: randomReplace_def default_to_def r)
  moreover have "pickReplace w input rawContent (Some emptyListPlaceholder) escapeOption
       = pickReplace w input rawContent None escapeOption"
    by (simp add: pickReplace_def default_to_def split_def p)
  moreover have "floor_times r (length (parse_list listString)) < length (parse_list listString)"
    using parse_list_not_Nil [of listString] by (simp add: floor_times_less)
  ultimately show ?thesis
    using parse_list_not_Nil [of listString]
      random_callback_item [of w emptyListPlaceholder varEscape matched caps offset whole]
      pick_callback_item [of w chatIdHash rawContentHash emptyListPlaceholder varEscape matched caps
        offset whole]
    by blast
qed

section \<open>Dice rolls\<close>








lemma is_digit_not_special:
  assumes "is_digit c"
  shows "c \<noteq> CHR ''{'' \<and> c \<noteq> CHR ''}'' \<and> c \<noteq> CHR ''<'' \<and> \<not> is_space c"
proof -
  from assms have r: "48 \<le> (of_char c :: int)" "(of_char c :: int) \<le> 57"
    by (simp_all add: is_digit_def)
  have "c \<noteq> CHR ''{''" using r by auto
  moreover have "c \<noteq> CHR ''}''" using r by auto
  moreover have "c \<noteq> CHR ''<''" using r by auto
  moreover have "\<not> is_space c"
  proof
    assume "is_space c"
    then have "(of_char c :: int) \<in> {9, 10, 11, 12, 13, 32, 160}"
      by (auto simp: is_space_def)
    with r show False by auto
  qed
  ultimately show ?thesis by simp
qed


lemma trim_no_space_ends:
  "s \<noteq> [] \<Longrightarrow> \<not> is_space (hd s) \<Longrightarrow> \<not> is_space (last s) \<Longrightarrow> trim s = s"
proof -
  assume s: "s \<noteq> []" and h: "\<not> is_space (hd s)" and l: "\<not> is_space (last s)"
  from s h have a: "dropWhile is_space s = s" by (cases s) auto
  from s l have "dropWhile is_space (rev s) = rev s" by (cases "rev s") (auto simp: last_rev hd_rev)
  with a show ?thesis by (simp add: trim_def)
qed

lemma trim_digits:
  assumes "isDigitsOnly n"
  shows "trim n = n"
proof (rule trim_no_space_ends)
  from assms show n: "n \<noteq> []" by (simp add: isDigitsOnly_def)
  from assms n have "is_digit (hd n)" and "is_digit (last n)"
    by (simp_all add: isDigitsOnly_def list_all_iff)
  then show "\<not> is_space (hd n)" and "\<not> is_space (last n)"
    using is_digit_not_special by blast+
qed











section \<open>Escaping, placeholders and the swipe index in the pipeline\<close>

text \<open>
  C1, evaluated. \<^verbatim>\<open>evaluateMacros\<close> calls \<^verbatim>\<open>diceRollReplace(content, varEscape)\<close>,
  \<^verbatim>\<open>randomReplace(content, varEscape)\<close> and \<^verbatim>\<open>pickReplace(content, rawContent, varEscape)\<close>:
  the escaping function arrives as the placeholder and the replacers escape with their
  default, the identity. With an escaping function that puts its argument in brackets,
  the dice total and both picks come out bare, while the built-in macro behind them is
  in brackets.
\<close>

theorem rolls_and_picks_are_not_escaped:
  "fst (evaluateMacros example_world []
          ''{{roll:2d6}} {{random::a}} {{pick::b}} {{maxPrompt}}'' [] (Some bracket_escape))
     = ''7 a b [4096]''"
  by code_simp

text \<open>
  C4, evaluated. The dice library rejects \<open>notaformula\<close>. \<^verbatim>\<open>diceRollReplace\<close> called with
  its defaults substitutes the empty placeholder; called as \<^verbatim>\<open>evaluateMacros\<close> calls it,
  it substitutes the placeholder it was given, the escaping function, whose string form
  is its source text.
\<close>

theorem invalid_roll_yields_escape_source:
  "\<not> droll_validate example_world ''notaformula''
   \<and> diceRollReplace example_world ''{{roll:notaformula}}'' None None = []
   \<and> fst (evaluateMacros example_world [] ''{{roll:notaformula}}'' [] None) = ''x => x''
   \<and> fst (evaluateMacros example_world [] ''{{roll:notaformula}}'' [] (Some bracket_escape))
       = ''x => `[${x}]`''"
  by code_simp

text \<open>
  C9, evaluated. In an empty chat, and for a last message without \<^verbatim>\<open>swipe_id\<close>, the
  macro is replaced by \<open>NaN\<close>: the index read is \<^verbatim>\<open>undefined\<close>, which is not \<^verbatim>\<open>null\<close>,
  and one is added to it. A \<^verbatim>\<open>swipe_id\<close> of \<^verbatim>\<open>null\<close> gives the empty string and the
  index 0 gives \<open>1\<close>.
\<close>

theorem currentSwipeId_without_index:
  "fst (evaluateMacros example_world [] ''{{currentSwipeId}}'' [] None) = ''NaN''
   \<and> fst (evaluateMacros
        (example_world\<lparr>chat := [\<lparr>is_user = False, is_system = False, mes = Str ''Hello'',
           send_date = Undefined, swipes = None, swipe_id = Absent\<rparr>]\<rparr>)
        [] ''{{currentSwipeId}}'' [] None) = ''NaN''
   \<and> fst (evaluateMacros
        (example_world\<lparr>chat := [\<lparr>is_user = False, is_system = False, mes = Str ''Hello'',
           send_date = Undefined, swipes = Some [''Hello''], swipe_id = NullNum\<rparr>]\<rparr>)
        [] ''{{currentSwipeId}}'' [] None) = []
   \<and> fst (evaluateMacros
        (example_world\<lparr>chat := [\<lparr>is_user = False, is_system = False, mes = Str ''Hello'',
           send_date = Undefined, swipes = Some [''Hello''], swipe_id = Number 0\<rparr>]\<rparr>)
        [] ''{{currentSwipeId}}'' [] None) = ''1''"
  by code_simp

section \<open>The seed of a deterministic pick\<close>













end
